theory Spec2Isabelle
  imports Complex_Main "HOL-Library.AList"
begin

section \<open>Data model of \<^verbatim>\<open>src/services/SoundManager.ts\<close>\<close>

text \<open>
  The sound manager is a singleton object whose methods mutate its private fields, the
  \<^verbatim>\<open>Sound\<close> objects of its registry and the \<^verbatim>\<open>HTMLAudioElement\<close>s of its pool.  Both
  kinds of object are shared by reference (a pooled element can be handed to several
  sounds, \<^verbatim>\<open>currentMusic\<close> and the timer closures of \<^verbatim>\<open>stop\<close> point at \<^verbatim>\<open>Sound\<close>
  objects), so the model keeps them in two stores addressed by natural numbers and
  passes the whole manager state through every method.

  JavaScript numbers are modelled as reals: no rounding, no \<^verbatim>\<open>NaN\<close>.  The methods
  \<^verbatim>\<open>preloadSounds\<close>, \<^verbatim>\<open>updatePosition\<close>, \<^verbatim>\<open>on\<close>, \<^verbatim>\<open>off\<close> and the format helpers take
  no part in the properties proved below and are left out.
\<close>

type_synonym addr = nat
type_synonym bytes = "nat list"

text \<open>\<^verbatim>\<open>interface SoundOptions\<close>: every field is optional (\<open>None\<close> is \<^verbatim>\<open>undefined\<close>).\<close>

record SoundOptions =
  volume :: "real option"
  loop :: "bool option"
  playbackRate :: "real option"
  pan :: "real option"
  distance :: "real option"
  fadeIn :: "real option"
  fadeOut :: "real option"

definition no_options :: SoundOptions where
  "no_options = \<lparr>volume = None, loop = None, playbackRate = None, pan = None,
     distance = None, fadeIn = None, fadeOut = None\<rparr>"

text \<open>
  A \<^verbatim>\<open>GainNode\<close>: the value last written to \<^verbatim>\<open>gain.value\<close> and the automation events
  scheduled on the parameter, in the order of the calls.  Nothing in the source ever
  removes an event from the timeline.
\<close>

datatype automation = SetValueAtTime real real | LinearRampToValueAtTime real real

record GainNode =
  gain_value :: real
  gain_timeline :: "automation list"

text \<open>
  An \<^verbatim>\<open>HTMLAudioElement\<close> as the manager uses it.  \<open>src\<close> holds the bytes behind the
  object URL, \<open>onended\<close> the \<^verbatim>\<open>Sound\<close> object, the id and the \<^verbatim>\<open>loop\<close> value captured
  by the handler that \<^verbatim>\<open>play\<close> installs, \<open>onerror\<close> the id captured by the handler of
  \<^verbatim>\<open>loadSound\<close>.  \<open>connected\<close> records that the element already feeds a
  \<^verbatim>\<open>MediaElementAudioSourceNode\<close>: the platform refuses a second one.
\<close>

record HTMLAudioElement =
  paused :: bool
  currentTime :: real
  src :: "bytes option"
  audio_loop :: bool
  audio_playbackRate :: real
  audio_volume :: real
  onended :: "(addr \<times> string \<times> bool) option"
  onerror :: "string option"
  connected :: bool

text \<open>\<^verbatim>\<open>new Audio()\<close> followed by lines 99-100 of \<^verbatim>\<open>createPooledAudio\<close>.\<close>

definition new_Audio :: HTMLAudioElement where
  "new_Audio = \<lparr>paused = True, currentTime = 0, src = None, audio_loop = False,
     audio_playbackRate = 1, audio_volume = 1, onended = None, onerror = None,
     connected = False\<rparr>"

text \<open>\<^verbatim>\<open>interface Sound\<close>; \<open>audio\<close> is the address of the element the sound plays on.\<close>

record Sound =
  sound_id :: string
  audio :: addr
  isMusic :: bool
  options :: SoundOptions
  gain :: "GainNode option"
  panner :: "real option"
  isPlaying :: bool
  startTime :: "real option"
  endTime :: "real option"

definition blank_Sound :: Sound where
  "blank_Sound = \<lparr>sound_id = [], audio = 0, isMusic = False, options = no_options,
     gain = None, panner = None, isPlaying = False, startTime = None, endTime = None\<rparr>"

datatype AudioContext = AudioContext

datatype channel = MusicChannel | SfxChannel

text \<open>The calls of \<^verbatim>\<open>triggerEvent\<close>, with the payload fields the source passes.\<close>

datatype event =
    LoadEvent string bool
  | ErrorEvent string
  | PlayEvent string bool
  | PauseEvent string bool
  | ResumeEvent string bool
  | EndEvent string bool
  | VolumeChangeEvent channel real
  | MuteChangeEvent channel bool

datatype console_entry = ConsoleLog string | ConsoleWarn string | ConsoleError string

text \<open>What the platform exceptions reachable from \<^verbatim>\<open>play\<close> are.\<close>

datatype dom_exception = InvalidStateError | IndexSizeError

datatype 'a outcome = Returned 'a | Thrown dom_exception

text \<open>
  What a method reads from its environment when it runs: whether
  \<^verbatim>\<open>new AudioContext()\<close> succeeds, \<^verbatim>\<open>audioContext.currentTime\<close> and \<^verbatim>\<open>Date.now()\<close>.
\<close>

record platform =
  contextAvailable :: bool
  contextTime :: real
  dateNow :: real

text \<open>
  The fields of \<^verbatim>\<open>class SoundManager\<close> (lines 36-47), the two object stores with their
  allocation counters, and what the manager has handed to its environment: the
  \<^verbatim>\<open>fetch\<close> calls issued, the callbacks pending in \<^verbatim>\<open>setTimeout\<close> (delay in
  milliseconds and the captured \<^verbatim>\<open>Sound\<close>), the events triggered, the console output
  and the number of \<^verbatim>\<open>visibilitychange\<close> listeners added to the document.
  A JavaScript \<^verbatim>\<open>Map\<close> is an association list: iteration follows insertion order and
  \<^verbatim>\<open>set\<close> on a present key replaces the value in place (\<open>AList.update\<close>).
\<close>

record SoundManager =
  audioContext :: "AudioContext option"
  sounds :: "(string \<times> addr) list"
  soundsCache :: "(string \<times> bytes) list"
  musicVolume :: real
  sfxVolume :: real
  isMusicMuted :: bool
  isSfxMuted :: bool
  currentMusic :: "addr option"
  audioPool :: "addr list"
  eventListeners :: "(string \<times> nat list) list"
  isInitialized :: bool
  sound_heap :: "addr \<Rightarrow> Sound"
  next_sound :: addr
  audio_heap :: "addr \<Rightarrow> HTMLAudioElement"
  next_audio :: addr
  fetches :: "string list"
  timers :: "(real \<times> addr) list"
  emitted :: "event list"
  console :: "console_entry list"
  visibilityListeners :: nat

definition maxPoolSize :: nat where
  "maxPoolSize = 20"

text \<open>The manager as the private constructor leaves it (the field initialisers).\<close>

definition new_SoundManager :: SoundManager where
  "new_SoundManager = \<lparr>audioContext = None, sounds = [], soundsCache = [],
     musicVolume = 1, sfxVolume = 1, isMusicMuted = False, isSfxMuted = False,
     currentMusic = None, audioPool = [], eventListeners = [], isInitialized = False,
     sound_heap = (\<lambda>_. blank_Sound), next_sound = 0,
     audio_heap = (\<lambda>_. new_Audio), next_audio = 0,
     fetches = [], timers = [], emitted = [], console = [], visibilityListeners = 0\<rparr>"

section \<open>Store access and platform primitives\<close>

definition upd_audio ::
  "addr \<Rightarrow> (HTMLAudioElement \<Rightarrow> HTMLAudioElement) \<Rightarrow> SoundManager \<Rightarrow> SoundManager" where
  "upd_audio a f s = s\<lparr>audio_heap := (audio_heap s)(a := f (audio_heap s a))\<rparr>"

definition upd_sound ::
  "addr \<Rightarrow> (Sound \<Rightarrow> Sound) \<Rightarrow> SoundManager \<Rightarrow> SoundManager" where
  "upd_sound a f s = s\<lparr>sound_heap := (sound_heap s)(a := f (sound_heap s a))\<rparr>"

text \<open>
  \<^verbatim>\<open>audio.play()\<close> and \<^verbatim>\<open>audio.pause()\<close>: the element's \<^verbatim>\<open>paused\<close> attribute becomes
  false, respectively true (the promise \<^verbatim>\<open>play()\<close> returns is never awaited by the
  source).
\<close>

definition audio_play :: "addr \<Rightarrow> SoundManager \<Rightarrow> SoundManager" where
  "audio_play a = upd_audio a (\<lambda>e. e\<lparr>paused := False\<rparr>)"

definition audio_pause :: "addr \<Rightarrow> SoundManager \<Rightarrow> SoundManager" where
  "audio_pause a = upd_audio a (\<lambda>e. e\<lparr>paused := True\<rparr>)"

definition console_log :: "string \<Rightarrow> SoundManager \<Rightarrow> SoundManager" where
  "console_log m s = s\<lparr>console := console s @ [ConsoleLog m]\<rparr>"

definition console_warn :: "string \<Rightarrow> SoundManager \<Rightarrow> SoundManager" where
  "console_warn m s = s\<lparr>console := console s @ [ConsoleWarn m]\<rparr>"

definition console_error :: "string \<Rightarrow> SoundManager \<Rightarrow> SoundManager" where
  "console_error m s = s\<lparr>console := console s @ [ConsoleError m]\<rparr>"

text \<open>
  \<^verbatim>\<open>triggerEvent\<close> (lines 570-583) hands the payload to the listeners registered for the
  event; the model records the call.  Listeners are taken not to call back into the
  manager.
\<close>

definition triggerEvent :: "event \<Rightarrow> SoundManager \<Rightarrow> SoundManager" where
  "triggerEvent ev s = s\<lparr>emitted := emitted s @ [ev]\<rparr>"

section \<open>The voice pool (lines 96-125)\<close>

definition createPooledAudio :: "SoundManager \<Rightarrow> addr \<times> SoundManager" where
  "createPooledAudio s =
     (let a = next_audio s
      in (a, s\<lparr>audio_heap := (audio_heap s)(a := new_Audio),
               next_audio := Suc a,
               audioPool := audioPool s @ [a]\<rparr>))"

text \<open>The loop of lines 108-113: the first element of the pool that is paused.\<close>

fun first_paused :: "(addr \<Rightarrow> HTMLAudioElement) \<Rightarrow> addr list \<Rightarrow> addr option" where
  "first_paused h [] = None"
| "first_paused h (a # as) = (if paused (h a) then Some a else first_paused h as)"

text \<open>
  \<^verbatim>\<open>getAudioFromPool\<close>.  The last branch is \<^verbatim>\<open>shift\<close>, \<^verbatim>\<open>pause\<close>, \<^verbatim>\<open>push\<close>; it is
  taken only when the pool holds at least \<open>maxPoolSize\<close> elements, so the pool is
  not empty there.
\<close>

definition getAudioFromPool :: "SoundManager \<Rightarrow> addr \<times> SoundManager" where
  "getAudioFromPool s =
     (case first_paused (audio_heap s) (audioPool s) of
        Some a \<Rightarrow> (a, s)
      | None \<Rightarrow>
          if length (audioPool s) < maxPoolSize then createPooledAudio s
          else (let a = hd (audioPool s)
                in (a, (audio_pause a s)\<lparr>audioPool := tl (audioPool s) @ [a]\<rparr>)))"




section \<open>Initialisation (lines 60-94)\<close>

primrec createPooledAudios :: "nat \<Rightarrow> SoundManager \<Rightarrow> SoundManager" where
  "createPooledAudios 0 s = s"
| "createPooledAudios (Suc n) s = createPooledAudios n (snd (createPooledAudio s))"

text \<open>
  \<^verbatim>\<open>init\<close>: the \<^verbatim>\<open>try\<close> block either creates the context or logs the failure; the
  five pool elements and the visibility listener are added in both cases.
\<close>

definition init :: "platform \<Rightarrow> SoundManager \<Rightarrow> SoundManager" where
  "init pf s =
     (if isInitialized s then s
      else
        let s1 = (if contextAvailable pf
                  then console_log ''Sound Manager initialized''
                         (s\<lparr>audioContext := Some AudioContext, isInitialized := True\<rparr>)
                  else console_error ''Failed to initialize AudioContext'' s);
            s2 = createPooledAudios 5 s1
        in s2\<lparr>visibilityListeners := Suc (visibilityListeners s2)\<rparr>)"

definition ensureInitialized :: "platform \<Rightarrow> SoundManager \<Rightarrow> bool \<times> SoundManager" where
  "ensureInitialized pf s =
     (let s1 = (if \<not> isInitialized s then init pf s else s)
      in (isInitialized s1 \<and> audioContext s1 \<noteq> None, s1))"

section \<open>Loading (lines 160-232)\<close>

text \<open>
  Lines 172-191 and 203-221, the same in both paths: take a voice from the pool, point
  it at the bytes, install the error handler, build the \<^verbatim>\<open>Sound\<close> and put it in the
  registry under its id.
\<close>

definition registerSound :: "string \<Rightarrow> bool \<Rightarrow> bytes \<Rightarrow> SoundManager \<Rightarrow> addr \<times> SoundManager" where
  "registerSound sid isM buf s =
     (let (a, s1) = getAudioFromPool s;
          s2 = upd_audio a (\<lambda>e. e\<lparr>src := Some buf, onerror := Some sid\<rparr>) s1;
          sa = next_sound s2
      in (sa, s2\<lparr>sound_heap := (sound_heap s2)(sa :=
                     \<lparr>sound_id = sid, audio = a, isMusic = isM, options = no_options,
                      gain = None, panner = None, isPlaying = False,
                      startTime = None, endTime = None\<rparr>),
                  next_sound := Suc sa,
                  sounds := AList.update sid sa (sounds s2)\<rparr>))"

text \<open>
  \<^verbatim>\<open>loadSound\<close> is asynchronous.  \<open>loadSound_begin\<close> is the part that runs when the
  method is called, up to \<^verbatim>\<open>await fetch(url)\<close>: it either resolves at once or issues a
  fetch.  \<open>loadSound_resume\<close> is the part that runs when that fetch has settled, with
  the bytes received or \<open>None\<close> when the fetch was rejected.  Other calls can run
  between the two.
\<close>

datatype load_step = Resolved "addr option" | AwaitingFetch

definition loadSound_begin ::
  "platform \<Rightarrow> string \<Rightarrow> string \<Rightarrow> bool \<Rightarrow> SoundManager \<Rightarrow> load_step \<times> SoundManager" where
  "loadSound_begin pf sid url isM s0 =
     (let (ok, s) = ensureInitialized pf s0
      in if \<not> ok then (Resolved None, s)
         else (case map_of (sounds s) sid of
                 Some sa \<Rightarrow> (Resolved (Some sa), s)
               | None \<Rightarrow>
                   (case map_of (soundsCache s) url of
                      Some buf \<Rightarrow>
                        (let (sa, s1) = registerSound sid isM buf s
                         in (Resolved (Some sa), s1))
                    | None \<Rightarrow> (AwaitingFetch, s\<lparr>fetches := fetches s @ [url]\<rparr>))))"

definition loadSound_resume ::
  "string \<Rightarrow> string \<Rightarrow> bool \<Rightarrow> bytes option \<Rightarrow> SoundManager \<Rightarrow> addr option \<times> SoundManager" where
  "loadSound_resume sid url isM fetched s =
     (case fetched of
        None \<Rightarrow>
          (None, triggerEvent (ErrorEvent sid)
                   (console_error (''Failed to load sound '' @ sid @ '' from '' @ url) s))
      | Some buf \<Rightarrow>
          (let s1 = s\<lparr>soundsCache := AList.update url buf (soundsCache s)\<rparr>;
               (sa, s2) = registerSound sid isM buf s1
           in (Some sa, triggerEvent (LoadEvent sid isM) s2)))"

section \<open>Playback (lines 283-447)\<close>

text \<open>\<^verbatim>\<open>cleanupAudioNodes\<close>: both nodes are disconnected and the references dropped.\<close>

definition cleanupAudioNodes :: "addr \<Rightarrow> SoundManager \<Rightarrow> SoundManager" where
  "cleanupAudioNodes sa = upd_sound sa (\<lambda>x. x\<lparr>gain := None, panner := None\<rparr>)"

text \<open>
  The four statements that \<^verbatim>\<open>stop\<close> runs at once (lines 400-403) or from its timer
  (lines 393-396), on the \<^verbatim>\<open>Sound\<close> object at \<open>sa\<close>.
\<close>

definition stopNow :: "addr \<Rightarrow> SoundManager \<Rightarrow> SoundManager" where
  "stopNow sa s =
     (let a = audio (sound_heap s sa);
          s1 = audio_pause a s;
          s2 = upd_audio a (\<lambda>e. e\<lparr>currentTime := 0\<rparr>) s1;
          s3 = upd_sound sa (\<lambda>x. x\<lparr>isPlaying := False\<rparr>) s2
      in cleanupAudioNodes sa s3)"

text \<open>
  \<^verbatim>\<open>stop\<close>.  With a positive \<^verbatim>\<open>fadeOut\<close>, a gain node and a context, two events are
  added to the gain's timeline and the four statements are deferred by
  \<^verbatim>\<open>setTimeout\<close>; otherwise they run at once.  \<^verbatim>\<open>currentMusic\<close> is cleared when its id
  is the one stopped.
\<close>

definition stop :: "platform \<Rightarrow> string \<Rightarrow> SoundOptions \<Rightarrow> SoundManager \<Rightarrow> SoundManager" where
  "stop pf sid opts s =
     (case map_of (sounds s) sid of
        None \<Rightarrow> s
      | Some sa \<Rightarrow>
          (let s1 =
             (case fadeOut opts of
                None \<Rightarrow> stopNow sa s
              | Some fo \<Rightarrow>
                  (case gain (sound_heap s sa) of
                     None \<Rightarrow> stopNow sa s
                   | Some g \<Rightarrow>
                       if 0 < fo \<and> audioContext s \<noteq> None
                       then (let t = contextTime pf;
                                 g' = g\<lparr>gain_timeline := gain_timeline g @
                                        [SetValueAtTime (gain_value g) t,
                                         LinearRampToValueAtTime 0 (t + fo)]\<rparr>;
                                 s' = upd_sound sa (\<lambda>x. x\<lparr>gain := Some g'\<rparr>) s
                             in s'\<lparr>timers := timers s' @ [(fo * 1000, sa)]\<rparr>)
                       else stopNow sa s))
           in (case currentMusic s1 of
                 None \<Rightarrow> s1
               | Some ca \<Rightarrow>
                   if sound_id (sound_heap s1 ca) = sid then s1\<lparr>currentMusic := None\<rparr>
                   else s1)))"

text \<open>
  The \<open>i\<close>-th pending timer of \<^verbatim>\<open>stop\<close> runs its callback and leaves the queue.  When
  a timer fires is up to the environment; the model has no clock of its own.
\<close>

definition fire_timer :: "nat \<Rightarrow> SoundManager \<Rightarrow> SoundManager" where
  "fire_timer i s =
     (if i < length (timers s)
      then stopNow (snd (timers s ! i))
             (s\<lparr>timers := take i (timers s) @ drop (Suc i) (timers s)\<rparr>)
      else s)"

text \<open>
  \<^verbatim>\<open>play\<close>, in the order of the source and in four parts.  Lines 310-330: the
  element is connected to a source node, the gain and panner nodes are created and
  stored in the sound, \<^verbatim>\<open>loop\<close> and \<^verbatim>\<open>playbackRate\<close> are set on the element.
\<close>

definition play_nodes ::
  "addr \<Rightarrow> real \<Rightarrow> bool \<Rightarrow> real \<Rightarrow> real \<Rightarrow> SoundManager \<Rightarrow> SoundManager" where
  "play_nodes sa vol lp rate pn s =
     (let a = audio (sound_heap s sa);
          s1 = upd_audio a (\<lambda>e. e\<lparr>connected := True\<rparr>) s;
          s2 = upd_sound sa (\<lambda>x. x\<lparr>gain := Some \<lparr>gain_value = vol, gain_timeline = []\<rparr>,
                                    panner := Some pn\<rparr>) s1
      in upd_audio a (\<lambda>e. e\<lparr>audio_loop := lp, audio_playbackRate := rate\<rparr>) s2)"

text \<open>
  Lines 331-349: the element's volume, the start of playback with or without the
  fade-in ramp, and the sound's state.
\<close>

definition play_begin ::
  "platform \<Rightarrow> addr \<Rightarrow> SoundOptions \<Rightarrow> real \<Rightarrow> SoundManager \<Rightarrow> SoundManager" where
  "play_begin pf sa opts vol s =
     (let a = audio (sound_heap s sa);
          s4 = upd_audio a (\<lambda>e. e\<lparr>audio_volume := vol\<rparr>) s;
          s5 = (case fadeIn opts of
                  None \<Rightarrow> audio_play a s4
                | Some fi \<Rightarrow>
                    if 0 < fi
                    then (let t = contextTime pf
                          in upd_sound sa (\<lambda>x. x\<lparr>gain := Some
                               \<lparr>gain_value = 0,
                                gain_timeline = [SetValueAtTime 0 t,
                                                 LinearRampToValueAtTime vol (t + fi)]\<rparr>\<rparr>)
                               (audio_play a s4))
                    else audio_play a s4)
      in upd_sound sa (\<lambda>x. x\<lparr>isPlaying := True, options := opts,
                               startTime := Some (dateNow pf)\<rparr>) s5)"

text \<open>
  Lines 352-358, for a music sound: the current music, if it has another id, is
  stopped with the \<^verbatim>\<open>fadeOut\<close> of this call, then the sound becomes the current music.
\<close>

definition play_music ::
  "platform \<Rightarrow> string \<Rightarrow> addr \<Rightarrow> SoundOptions \<Rightarrow> SoundManager \<Rightarrow> SoundManager" where
  "play_music pf sid sa opts s =
     (let s' = (case currentMusic s of
                  None \<Rightarrow> s
                | Some ca \<Rightarrow>
                    if sound_id (sound_heap s ca) \<noteq> sid
                    then stop pf (sound_id (sound_heap s ca)) (no_options\<lparr>fadeOut := fadeOut opts\<rparr>) s
                    else s)
      in s'\<lparr>currentMusic := Some sa\<rparr>)"

text \<open>
  The whole method.  Two statements can throw on the platform:
  \<^verbatim>\<open>createMediaElementSource\<close> on an element that already feeds a source node
  (\<^verbatim>\<open>InvalidStateError\<close>, nothing has changed yet) and \<^verbatim>\<open>audio.volume = volume\<close>
  outside \<open>[0, 1]\<close> (\<^verbatim>\<open>IndexSizeError\<close>, the nodes are in place); the state returned with
  \<open>Thrown\<close> is the state reached when the exception leaves the method.  The test of
  line 309 repeats that of line 285 and always holds there.  Lines 361-375 install
  the \<^verbatim>\<open>ended\<close> handler and trigger the \<^verbatim>\<open>play\<close> event.
\<close>

definition play ::
  "platform \<Rightarrow> string \<Rightarrow> SoundOptions \<Rightarrow> SoundManager \<Rightarrow> addr option outcome \<times> SoundManager" where
  "play pf sid opts s0 =
     (let (ok, s) = ensureInitialized pf s0
      in if \<not> ok \<or> audioContext s = None then (Returned None, s)
         else (case map_of (sounds s) sid of
            None \<Rightarrow> (Returned None, console_warn (''Sound '' @ sid @ '' not loaded'') s)
          | Some sa \<Rightarrow>
             (let music = isMusic (sound_heap s sa);
                  a = audio (sound_heap s sa)
              in if (music \<and> isMusicMuted s) \<or> (\<not> music \<and> isSfxMuted s)
                 then (Returned None, s)
                 else
                  (let baseVolume = (if music then musicVolume s else sfxVolume s);
                       vol = (case volume opts of Some v \<Rightarrow> v | None \<Rightarrow> 1) * baseVolume;
                       lp = (case loop opts of Some b \<Rightarrow> b | None \<Rightarrow> False);
                       rate = (case playbackRate opts of Some r \<Rightarrow> r | None \<Rightarrow> 1);
                       pn = (case pan opts of Some p \<Rightarrow> p | None \<Rightarrow> 0)
                   in if connected (audio_heap s a) then (Thrown InvalidStateError, s)
                      else
                       (let s3 = play_nodes sa vol lp rate pn s
                        in if vol < 0 \<or> 1 < vol then (Thrown IndexSizeError, s3)
                           else
                            (let s6 = play_begin pf sa opts vol s3;
                                 s7 = (if music then play_music pf sid sa opts s6 else s6);
                                 s8 = upd_audio a (\<lambda>e. e\<lparr>onended := Some (sa, sid, lp)\<rparr>) s7
                             in (Returned (Some sa),
                                 triggerEvent (PlayEvent sid music) s8)))))))"

text \<open>
  The \<^verbatim>\<open>ended\<close> event of the element at \<open>a\<close>: the platform has set \<^verbatim>\<open>paused\<close>, then
  the handler installed by \<^verbatim>\<open>play\<close> (lines 361-372) runs, if there is one.
\<close>

definition audio_ended :: "platform \<Rightarrow> addr \<Rightarrow> SoundManager \<Rightarrow> SoundManager" where
  "audio_ended pf a s =
     (let s1 = audio_pause a s
      in (case onended (audio_heap s1 a) of
            None \<Rightarrow> s1
          | Some (sa, sid, lp) \<Rightarrow>
              (let s2 = upd_sound sa (\<lambda>x. x\<lparr>isPlaying := False, endTime := Some (dateNow pf)\<rparr>) s1;
                   s3 = triggerEvent (EndEvent sid (isMusic (sound_heap s2 sa))) s2
               in if \<not> lp then cleanupAudioNodes sa s3 else s3)))"

definition pause :: "string \<Rightarrow> SoundManager \<Rightarrow> SoundManager" where
  "pause sid s =
     (case map_of (sounds s) sid of
        None \<Rightarrow> s
      | Some sa \<Rightarrow>
          if \<not> isPlaying (sound_heap s sa) then s
          else (let s1 = audio_pause (audio (sound_heap s sa)) s;
                    s2 = upd_sound sa (\<lambda>x. x\<lparr>isPlaying := False\<rparr>) s1
                in triggerEvent (PauseEvent sid (isMusic (sound_heap s2 sa))) s2))"

definition resume :: "string \<Rightarrow> SoundManager \<Rightarrow> SoundManager" where
  "resume sid s =
     (case map_of (sounds s) sid of
        None \<Rightarrow> s
      | Some sa \<Rightarrow>
          if isPlaying (sound_heap s sa) then s
          else (let s1 = audio_play (audio (sound_heap s sa)) s;
                    s2 = upd_sound sa (\<lambda>x. x\<lparr>isPlaying := True\<rparr>) s1
                in triggerEvent (ResumeEvent sid (isMusic (sound_heap s2 sa))) s2))"

section \<open>Channel volume and mute (lines 449-528)\<close>

text \<open>The value written to a gain node: channel volume times \<^verbatim>\<open>options.volume\<close>, or times 1.\<close>

definition scaled :: "real \<Rightarrow> Sound \<Rightarrow> real" where
  "scaled v x = v * (case volume (options x) of Some ov \<Rightarrow> ov | None \<Rightarrow> 1)"

definition set_gain_value :: "addr \<Rightarrow> real \<Rightarrow> SoundManager \<Rightarrow> SoundManager" where
  "set_gain_value sa v =
     upd_sound sa (\<lambda>x. x\<lparr>gain := map_option (\<lambda>g. g\<lparr>gain_value := v\<rparr>) (gain x)\<rparr>)"

definition setMusicVolume :: "real \<Rightarrow> SoundManager \<Rightarrow> SoundManager" where
  "setMusicVolume v s =
     (let s1 = s\<lparr>musicVolume := max 0 (min 1 v)\<rparr>;
          s2 = (case currentMusic s1 of
                  None \<Rightarrow> s1
                | Some ca \<Rightarrow>
                    if gain (sound_heap s1 ca) \<noteq> None
                    then set_gain_value ca (scaled (musicVolume s1) (sound_heap s1 ca)) s1
                    else s1)
      in triggerEvent (VolumeChangeEvent MusicChannel (musicVolume s2)) s2)"

text \<open>The callback of \<^verbatim>\<open>forEach\<close> in \<^verbatim>\<open>setSfxVolume\<close> (lines 468-473), for one registry entry.\<close>

definition setSfxVolume_each :: "string \<times> addr \<Rightarrow> SoundManager \<Rightarrow> SoundManager" where
  "setSfxVolume_each = (\<lambda>(k, sa) st.
     if \<not> isMusic (sound_heap st sa) \<and> isPlaying (sound_heap st sa)
        \<and> gain (sound_heap st sa) \<noteq> None
     then set_gain_value sa (scaled (sfxVolume st) (sound_heap st sa)) st
     else st)"

definition setSfxVolume :: "real \<Rightarrow> SoundManager \<Rightarrow> SoundManager" where
  "setSfxVolume v s =
     (let s1 = s\<lparr>sfxVolume := max 0 (min 1 v)\<rparr>;
          s2 = fold setSfxVolume_each (sounds s1) s1
      in triggerEvent (VolumeChangeEvent SfxChannel (sfxVolume s2)) s2)"

definition toggleMusicMute :: "SoundManager \<Rightarrow> bool \<times> SoundManager" where
  "toggleMusicMute s =
     (let s1 = s\<lparr>isMusicMuted := \<not> isMusicMuted s\<rparr>;
          s2 = (case currentMusic s1 of
                  None \<Rightarrow> s1
                | Some ca \<Rightarrow>
                    if isMusicMuted s1 then audio_pause (audio (sound_heap s1 ca)) s1
                    else audio_play (audio (sound_heap s1 ca)) s1)
      in (isMusicMuted s2, triggerEvent (MuteChangeEvent MusicChannel (isMusicMuted s2)) s2))"

text \<open>The callback of \<^verbatim>\<open>forEach\<close> in \<^verbatim>\<open>toggleSfxMute\<close> (lines 502-510).\<close>

definition toggleSfxMute_each :: "string \<times> addr \<Rightarrow> SoundManager \<Rightarrow> SoundManager" where
  "toggleSfxMute_each = (\<lambda>(k, sa) st.
     if \<not> isMusic (sound_heap st sa) \<and> isPlaying (sound_heap st sa)
     then (if isSfxMuted st then audio_pause (audio (sound_heap st sa)) st
           else audio_play (audio (sound_heap st sa)) st)
     else st)"

definition toggleSfxMute :: "SoundManager \<Rightarrow> bool \<times> SoundManager" where
  "toggleSfxMute s =
     (let s1 = s\<lparr>isSfxMuted := \<not> isSfxMuted s\<rparr>;
          s2 = fold toggleSfxMute_each (sounds s1) s1
      in (isSfxMuted s2, triggerEvent (MuteChangeEvent SfxChannel (isSfxMuted s2)) s2))"

definition setMusicMute :: "bool \<Rightarrow> SoundManager \<Rightarrow> SoundManager" where
  "setMusicMute muted s = (if isMusicMuted s = muted then s else snd (toggleMusicMute s))"

definition setSfxMute :: "bool \<Rightarrow> SoundManager \<Rightarrow> SoundManager" where
  "setSfxMute muted s = (if isSfxMuted s = muted then s else snd (toggleSfxMute s))"

section \<open>Visibility transitions and disposal (lines 530-546 and 620-644)\<close>





section \<open>Notions used in the statements\<close>

text \<open>
  The state \<^verbatim>\<open>stop\<close> aims at for the \<^verbatim>\<open>Sound\<close> object at \<open>sa\<close>: not playing, its
  voice paused at position zero, its gain node gone.
\<close>

definition is_stopped :: "SoundManager \<Rightarrow> addr \<Rightarrow> bool" where
  "is_stopped s sa =
     (\<not> isPlaying (sound_heap s sa)
      \<and> paused (audio_heap s (audio (sound_heap s sa)))
      \<and> currentTime (audio_heap s (audio (sound_heap s sa))) = 0
      \<and> gain (sound_heap s sa) = None)"


text \<open>\<open>clamp(v, 0, 1)\<close>, written without \<open>max\<close> and \<open>min\<close>.\<close>

definition clamp01 :: "real \<Rightarrow> real" where
  "clamp01 v = (if v < 0 then 0 else if 1 < v then 1 else v)"

section \<open>Example runs\<close>

text \<open>
  Concrete runs of the manager, each starting from \<open>new_SoundManager\<close>.  A platform on
  which the audio context can be created, with both clocks at 0:
\<close>

definition pf0 :: platform where
  "pf0 = \<lparr>contextAvailable = True, contextTime = 0, dateNow = 0\<rparr>"

text \<open>
  A \<^verbatim>\<open>loadSound\<close> call that runs to its end with nothing in between: when it fetches,
  the fetch delivers \<open>buf\<close>.
\<close>

definition load :: "platform \<Rightarrow> string \<Rightarrow> string \<Rightarrow> bool \<Rightarrow> bytes \<Rightarrow> SoundManager \<Rightarrow> SoundManager" where
  "load pf sid url isM buf s =
     (case loadSound_begin pf sid url isM s of
        (Resolved r, s1) \<Rightarrow> s1
      | (AwaitingFetch, s1) \<Rightarrow> snd (loadSound_resume sid url isM (Some buf) s1))"

text \<open>Music \<^verbatim>\<open>m1\<close> is loaded into a fresh manager and played.\<close>

definition run_m1_loaded :: SoundManager where
  "run_m1_loaded = load pf0 ''m1'' ''/m1.mp3'' True [1] new_SoundManager"

definition run_m1_playing :: SoundManager where
  "run_m1_playing = snd (play pf0 ''m1'' no_options run_m1_loaded)"

text \<open>
  While \<^verbatim>\<open>m1\<close> plays, music \<^verbatim>\<open>m2\<close> is loaded (the pool hands it the next element,
  the first one being busy) and played with \<^verbatim>\<open>fadeOut: 2\<close>: the timer that will stop
  \<^verbatim>\<open>m1\<close> is pending.
\<close>

definition run_m2_loaded :: SoundManager where
  "run_m2_loaded = load pf0 ''m2'' ''/m2.mp3'' True [2] run_m1_playing"

definition run_crossfade :: SoundManager where
  "run_crossfade = snd (play pf0 ''m2'' (no_options\<lparr>fadeOut := Some 2\<rparr>) run_m2_loaded)"

text \<open>
  Music \<^verbatim>\<open>m1\<close> is played with \<^verbatim>\<open>fadeIn: 2\<close> and at once stopped with \<^verbatim>\<open>fadeOut: 1\<close>
  (the context clock of \<open>pf0\<close> stands at 0 for both calls).
\<close>

definition run_fade_in :: SoundManager where
  "run_fade_in = snd (play pf0 ''m1'' (no_options\<lparr>fadeIn := Some 2\<rparr>) run_m1_loaded)"

definition run_fade_in_stop :: SoundManager where
  "run_fade_in_stop = stop pf0 ''m1'' (no_options\<lparr>fadeOut := Some 1\<rparr>) run_fade_in"

text \<open>
  The effect \<^verbatim>\<open>click\<close> is loaded into a fresh manager; then either the effects channel
  is muted, or the effect is played, stopped and resumed.
\<close>

definition run_click_loaded :: SoundManager where
  "run_click_loaded = load pf0 ''click'' ''/click.wav'' False [3] new_SoundManager"

definition run_click_muted :: SoundManager where
  "run_click_muted = setSfxMute True run_click_loaded"

definition run_click_playing :: SoundManager where
  "run_click_playing = snd (play pf0 ''click'' no_options run_click_loaded)"

definition run_click_resumed :: SoundManager where
  "run_click_resumed = resume ''click'' (stop pf0 ''click'' no_options run_click_playing)"



text \<open>
  \<^verbatim>\<open>loadSound('x', '/x.mp3')\<close> is called twice on a fresh manager before either fetch
  has settled; then both fetches deliver the same bytes.
\<close>

definition run_two_loads_begun :: SoundManager where
  "run_two_loads_begun =
     snd (loadSound_begin pf0 ''x'' ''/x.mp3'' False
       (snd (loadSound_begin pf0 ''x'' ''/x.mp3'' False new_SoundManager)))"

definition run_two_loads_done :: SoundManager where
  "run_two_loads_done =
     snd (loadSound_resume ''x'' ''/x.mp3'' False (Some [7])
       (snd (loadSound_resume ''x'' ''/x.mp3'' False (Some [7]) run_two_loads_begun)))"



section \<open>Evaluation and frame lemmas\<close>

lemmas store_defs = upd_audio_def upd_sound_def audio_play_def audio_pause_def
  console_log_def console_warn_def console_error_def triggerEvent_def cleanupAudioNodes_def

lemmas run_defs = pf0_def load_def loadSound_begin_def loadSound_resume_def
  ensureInitialized_def init_def createPooledAudio_def getAudioFromPool_def registerSound_def
  new_SoundManager_def new_Audio_def blank_Sound_def no_options_def maxPoolSize_def

lemmas play_defs = play_def play_nodes_def play_begin_def play_music_def stop_def stopNow_def

lemma fold_field:
  assumes "\<And>x st. g (f x st) = g st"
  shows "g (fold f xs s) = g s"
  by (induction xs arbitrary: s) (simp_all add: assms)

lemma run_m1_loaded_eval:
  "isInitialized run_m1_loaded \<and> audioContext run_m1_loaded = Some AudioContext
   \<and> sounds run_m1_loaded = [(''m1'', 0)]
   \<and> soundsCache run_m1_loaded = [(''/m1.mp3'', [1])]
   \<and> fetches run_m1_loaded = [''/m1.mp3'']
   \<and> next_sound run_m1_loaded = 1
   \<and> map_of (sounds run_m1_loaded) ''m1'' = Some 0
   \<and> \<not> isPlaying (sound_heap run_m1_loaded 0)"
  by (simp add: run_m1_loaded_def run_defs store_defs eval_nat_numeral Let_def)

lemma run_m1_playing_eval:
  "sounds run_m1_playing = [(''m1'', 0)]
   \<and> currentMusic run_m1_playing = Some 0
   \<and> isPlaying (sound_heap run_m1_playing 0)
   \<and> isMusic (sound_heap run_m1_playing 0)
   \<and> audio (sound_heap run_m1_playing 0) = 0
   \<and> \<not> paused (audio_heap run_m1_playing 0)
   \<and> \<not> isMusicMuted run_m1_playing \<and> \<not> isSfxMuted run_m1_playing
   \<and> isInitialized run_m1_playing \<and> audioContext run_m1_playing = Some AudioContext"
  by (simp add: run_m1_playing_def run_m1_loaded_def play_defs run_defs store_defs
        eval_nat_numeral Let_def)

section \<open>The voice pool\<close>












section \<open>Mute\<close>

lemma setMusicMute_flag: "isMusicMuted (setMusicMute m s) = m"
  by (auto simp: setMusicMute_def toggleMusicMute_def store_defs Let_def split: option.splits)

lemma toggleSfxMute_flag: "isSfxMuted (snd (toggleSfxMute s)) = (\<not> isSfxMuted s)"
proof -
  have "isSfxMuted (fold toggleSfxMute_each xs s1) = isSfxMuted s1" for xs s1
    by (rule fold_field) (simp add: toggleSfxMute_each_def store_defs split: prod.split)
  then show ?thesis
    by (simp add: toggleSfxMute_def Let_def triggerEvent_def)
qed

lemma setSfxMute_flag: "isSfxMuted (setSfxMute m s) = m"
  using toggleSfxMute_flag [of s] by (auto simp: setSfxMute_def)

text \<open>
  C9.  \<^verbatim>\<open>setMusicMute(m)\<close> and \<^verbatim>\<open>setSfxMute(m)\<close> return the manager exactly as it was
  when the channel's mute flag already equals \<open>m\<close>: no voice is paused or resumed, no
  field changes and no event is triggered.  Hence setting the same value twice is the
  same as setting it once.
\<close>

theorem C9_set_mute_same_value_is_noop:
  "(isMusicMuted s = m \<longrightarrow> setMusicMute m s = s)
   \<and> (isSfxMuted s = m \<longrightarrow> setSfxMute m s = s)
   \<and> setMusicMute m (setMusicMute m s) = setMusicMute m s
   \<and> setSfxMute m (setSfxMute m s) = setSfxMute m s"
proof (intro conjI impI)
  show "setMusicMute m (setMusicMute m s) = setMusicMute m s"
    using setMusicMute_flag [of m s] by (simp add: setMusicMute_def [of m "setMusicMute m s"])
  show "setSfxMute m (setSfxMute m s) = setSfxMute m s"
    using setSfxMute_flag [of m s] by (simp add: setSfxMute_def [of m "setSfxMute m s"])
qed (simp_all add: setMusicMute_def setSfxMute_def)

text \<open>
  While music \<^verbatim>\<open>m1\<close> plays with both channels unmuted, unmuting either channel again
  leaves the manager as it is, events and voices included.
\<close>

theorem C9_set_mute_same_value_is_noop_witness:
  "isMusicMuted run_m1_playing = False
   \<and> isSfxMuted run_m1_playing = False
   \<and> setMusicMute False run_m1_playing = run_m1_playing
   \<and> setSfxMute False run_m1_playing = run_m1_playing
   \<and> emitted (setMusicMute False run_m1_playing) = emitted run_m1_playing"
  using C9_set_mute_same_value_is_noop [of run_m1_playing False] run_m1_playing_eval
  by simp

section \<open>Pause, stop and resume\<close>

lemma stopNow_facts:
  "sounds (stopNow sa s) = sounds s
   \<and> \<not> isPlaying (sound_heap (stopNow sa s) sa)
   \<and> audio (sound_heap (stopNow sa s) x) = audio (sound_heap s x)
   \<and> isMusic (sound_heap (stopNow sa s) x) = isMusic (sound_heap s x)
   \<and> paused (audio_heap (stopNow sa s) (audio (sound_heap s sa)))
   \<and> currentTime (audio_heap (stopNow sa s) (audio (sound_heap s sa))) = 0
   \<and> gain (sound_heap (stopNow sa s) sa) = None
   \<and> emitted (stopNow sa s) = emitted s"
  by (simp add: stopNow_def store_defs Let_def)

lemma stop_now_facts:
  assumes "map_of (sounds s) sid = Some sa"
  shows "sounds (stop pf sid no_options s) = sounds s
   \<and> \<not> isPlaying (sound_heap (stop pf sid no_options s) sa)
   \<and> audio (sound_heap (stop pf sid no_options s) x) = audio (sound_heap s x)
   \<and> isMusic (sound_heap (stop pf sid no_options s) x) = isMusic (sound_heap s x)
   \<and> paused (audio_heap (stop pf sid no_options s) (audio (sound_heap s sa)))
   \<and> currentTime (audio_heap (stop pf sid no_options s) (audio (sound_heap s sa))) = 0
   \<and> gain (sound_heap (stop pf sid no_options s) sa) = None
   \<and> emitted (stop pf sid no_options s) = emitted s"
  using assms stopNow_facts [of sa s x]
  by (simp add: stop_def no_options_def Let_def split: option.splits)

lemma resume_facts:
  assumes "map_of (sounds s) sid = Some sa" "\<not> isPlaying (sound_heap s sa)"
  shows "isPlaying (sound_heap (resume sid s) sa)
     \<and> \<not> paused (audio_heap (resume sid s) (audio (sound_heap s sa)))
     \<and> emitted (resume sid s) = emitted s @ [ResumeEvent sid (isMusic (sound_heap s sa))]"
  using assms by (simp add: resume_def store_defs Let_def)

lemma pause_facts:
  assumes "map_of (sounds s) sid = Some sa" "isPlaying (sound_heap s sa)"
  shows "sounds (pause sid s) = sounds s
     \<and> \<not> isPlaying (sound_heap (pause sid s) sa)
     \<and> audio (sound_heap (pause sid s) x) = audio (sound_heap s x)
     \<and> isMusic (sound_heap (pause sid s) x) = isMusic (sound_heap s x)
     \<and> paused (audio_heap (pause sid s) (audio (sound_heap s sa)))
     \<and> emitted (pause sid s) = emitted s @ [PauseEvent sid (isMusic (sound_heap s sa))]"
  using assms by (simp add: pause_def store_defs Let_def)

text \<open>
  C10.  For a registered sound whose \<^verbatim>\<open>isPlaying\<close> flag is false, \<^verbatim>\<open>resume(id)\<close> calls
  \<^verbatim>\<open>play()\<close> on its voice, sets \<^verbatim>\<open>isPlaying\<close> and triggers a \<^verbatim>\<open>resume\<close> event.  The flag
  is all that \<^verbatim>\<open>resume\<close> looks at: it does so after \<^verbatim>\<open>pause(id)\<close> and just the same
  after \<^verbatim>\<open>stop(id)\<close>, so a stopped sound is restarted by \<^verbatim>\<open>resume\<close>.
\<close>

theorem C10_resume_restarts_paused_or_stopped:
  assumes "map_of (sounds s) sid = Some sa"
  shows "(\<not> isPlaying (sound_heap s sa) \<longrightarrow>
            isPlaying (sound_heap (resume sid s) sa)
          \<and> \<not> paused (audio_heap (resume sid s) (audio (sound_heap s sa)))
          \<and> emitted (resume sid s) = emitted s @ [ResumeEvent sid (isMusic (sound_heap s sa))])
     \<and> (isPlaying (sound_heap s sa) \<longrightarrow>
            \<not> isPlaying (sound_heap (pause sid s) sa)
          \<and> isPlaying (sound_heap (resume sid (pause sid s)) sa)
          \<and> \<not> paused (audio_heap (resume sid (pause sid s)) (audio (sound_heap s sa)))
          \<and> emitted (resume sid (pause sid s)) =
              emitted (pause sid s) @ [ResumeEvent sid (isMusic (sound_heap s sa))])
     \<and> \<not> isPlaying (sound_heap (stop pf sid no_options s) sa)
     \<and> isPlaying (sound_heap (resume sid (stop pf sid no_options s)) sa)
     \<and> \<not> paused (audio_heap (resume sid (stop pf sid no_options s)) (audio (sound_heap s sa)))
     \<and> emitted (resume sid (stop pf sid no_options s)) =
         emitted (stop pf sid no_options s) @ [ResumeEvent sid (isMusic (sound_heap s sa))]"
proof -
  let ?p = "pause sid s" and ?t = "stop pf sid no_options s"
  have t: "map_of (sounds ?t) sid = Some sa" "\<not> isPlaying (sound_heap ?t sa)"
    "audio (sound_heap ?t sa) = audio (sound_heap s sa)"
    "isMusic (sound_heap ?t sa) = isMusic (sound_heap s sa)"
    using stop_now_facts [OF assms, of pf sa] assms by simp_all
  have p: "map_of (sounds ?p) sid = Some sa \<and> \<not> isPlaying (sound_heap ?p sa)
    \<and> audio (sound_heap ?p sa) = audio (sound_heap s sa)
    \<and> isMusic (sound_heap ?p sa) = isMusic (sound_heap s sa)" if "isPlaying (sound_heap s sa)"
    using pause_facts [OF assms that, of sa] assms by simp
  show ?thesis
    using resume_facts [OF assms] resume_facts [OF t(1,2)] t p
      resume_facts [of ?p sid sa]
    by auto
qed

text \<open>
  Music \<^verbatim>\<open>m1\<close>: loaded and never played, \<^verbatim>\<open>resume('m1')\<close> sets it playing; playing,
  then paused, \<^verbatim>\<open>resume('m1')\<close> sets it playing again; playing, then stopped,
  \<^verbatim>\<open>resume('m1')\<close> sets it playing again just the same.
\<close>

theorem C10_resume_restarts_paused_or_stopped_witness:
  "map_of (sounds run_m1_loaded) ''m1'' = Some 0
   \<and> \<not> isPlaying (sound_heap run_m1_loaded 0)
   \<and> isPlaying (sound_heap (resume ''m1'' run_m1_loaded) 0)
   \<and> map_of (sounds run_m1_playing) ''m1'' = Some 0
   \<and> isPlaying (sound_heap run_m1_playing 0)
   \<and> \<not> isPlaying (sound_heap (pause ''m1'' run_m1_playing) 0)
   \<and> isPlaying (sound_heap (resume ''m1'' (pause ''m1'' run_m1_playing)) 0)
   \<and> \<not> isPlaying (sound_heap (stop pf0 ''m1'' no_options run_m1_playing) 0)
   \<and> isPlaying (sound_heap (resume ''m1'' (stop pf0 ''m1'' no_options run_m1_playing)) 0)
   \<and> \<not> paused (audio_heap (resume ''m1'' (stop pf0 ''m1'' no_options run_m1_playing)) 0)"
  using C10_resume_restarts_paused_or_stopped [of run_m1_loaded "''m1''" 0 pf0]
    C10_resume_restarts_paused_or_stopped [of run_m1_playing "''m1''" 0 pf0]
    run_m1_playing_eval run_m1_loaded_eval
  by simp

section \<open>Calls of \<^verbatim>\<open>play\<close> that start nothing\<close>

text \<open>
  C6, as the code has it.  On an initialised manager, \<^verbatim>\<open>play(id)\<close> returns \<^verbatim>\<open>null\<close>
  without throwing in both cases.  For an id that is not registered the only effect is
  the console warning \<^verbatim>\<open>Sound <id> not loaded\<close>.  For a registered sound whose channel
  is muted nothing changes at all: no warning is logged.
\<close>

theorem C6_play_unknown_or_muted:
  assumes "isInitialized s" and "audioContext s \<noteq> None"
  shows "(map_of (sounds s) sid = None \<longrightarrow>
            play pf sid opts s =
              (Returned None,
               s\<lparr>console := console s @ [ConsoleWarn (''Sound '' @ sid @ '' not loaded'')]\<rparr>))
       \<and> (\<forall>sa. map_of (sounds s) sid = Some sa
             \<and> ((isMusic (sound_heap s sa) \<and> isMusicMuted s)
                \<or> (\<not> isMusic (sound_heap s sa) \<and> isSfxMuted s)) \<longrightarrow>
            play pf sid opts s = (Returned None, s))"
  using assms by (auto simp: play_def ensureInitialized_def console_warn_def Let_def)

lemma run_click_muted_eval:
  "map_of (sounds run_click_muted) ''click'' = Some 0
   \<and> map_of (sounds run_click_muted) ''boom'' = None
   \<and> \<not> isMusic (sound_heap run_click_muted 0)
   \<and> isSfxMuted run_click_muted
   \<and> isInitialized run_click_muted
   \<and> audioContext run_click_muted = Some AudioContext
   \<and> console run_click_muted = [ConsoleLog ''Sound Manager initialized'']"
  by (simp add: run_click_muted_def run_click_loaded_def setSfxMute_def toggleSfxMute_def
        toggleSfxMute_each_def run_defs store_defs eval_nat_numeral Let_def)

text \<open>
  With \<^verbatim>\<open>click\<close> registered and the effects channel muted, \<^verbatim>\<open>play('click')\<close> changes
  nothing and \<^verbatim>\<open>play('boom')\<close> adds the warning.
\<close>

theorem C6_play_unknown_or_muted_witness:
  "isInitialized run_click_muted
   \<and> audioContext run_click_muted \<noteq> None
   \<and> play pf0 ''click'' no_options run_click_muted = (Returned None, run_click_muted)
   \<and> console (snd (play pf0 ''boom'' no_options run_click_muted)) =
       [ConsoleLog ''Sound Manager initialized'', ConsoleWarn ''Sound boom not loaded'']"
  using C6_play_unknown_or_muted [of run_click_muted "''click''" pf0 no_options]
    C6_play_unknown_or_muted [of run_click_muted "''boom''" pf0 no_options]
    run_click_muted_eval
  by simp

text \<open>
  As the specification states it, the property fails twice.  With \<^verbatim>\<open>click\<close> registered and its channel muted,
  \<^verbatim>\<open>play('click')\<close> returns \<^verbatim>\<open>null\<close> and the console is what it was: no warning has
  been logged.  And on a manager that is not initialised, \<^verbatim>\<open>play\<close> of an unknown id
  initialises it and fills the pool before it warns.
\<close>

theorem C6_counterexample:
  "map_of (sounds run_click_muted) ''click'' = Some 0
   \<and> \<not> isMusic (sound_heap run_click_muted 0)
   \<and> isSfxMuted run_click_muted
   \<and> fst (play pf0 ''click'' no_options run_click_muted) = Returned None
   \<and> console (snd (play pf0 ''click'' no_options run_click_muted)) = console run_click_muted
   \<and> console run_click_muted = [ConsoleLog ''Sound Manager initialized'']
   \<and> \<not> isInitialized new_SoundManager
   \<and> isInitialized (snd (play pf0 ''x'' no_options new_SoundManager))
   \<and> audioPool (snd (play pf0 ''x'' no_options new_SoundManager)) = [0, 1, 2, 3, 4]"
  by (simp add: run_click_muted_def run_click_loaded_def setSfxMute_def toggleSfxMute_def
        toggleSfxMute_each_def play_def run_defs store_defs eval_nat_numeral Let_def)

section \<open>Disposal\<close>


lemma stopNow_is_stopped: "is_stopped (stopNow sa s) sa"
  by (simp add: is_stopped_def stopNow_def store_defs Let_def)


lemma is_stopped_currentMusic: "is_stopped (s\<lparr>currentMusic := c\<rparr>) x = is_stopped s x"
  by (simp add: is_stopped_def)









section \<open>Channel volume\<close>

lemma run_crossfade_eval:
  "sounds run_crossfade = [(''m1'', 0), (''m2'', 1)]
   \<and> currentMusic run_crossfade = Some 1
   \<and> isMusic (sound_heap run_crossfade 0) \<and> isPlaying (sound_heap run_crossfade 0)
   \<and> isMusic (sound_heap run_crossfade 1) \<and> isPlaying (sound_heap run_crossfade 1)
   \<and> audio (sound_heap run_crossfade 0) = 0 \<and> audio (sound_heap run_crossfade 1) = 1
   \<and> gain (sound_heap run_crossfade 0) = Some \<lparr>gain_value = 1, gain_timeline =
        [SetValueAtTime 1 0, LinearRampToValueAtTime 0 2]\<rparr>
   \<and> gain (sound_heap run_crossfade 1) = Some \<lparr>gain_value = 1, gain_timeline = []\<rparr>
   \<and> volume (options (sound_heap run_crossfade 0)) = None
   \<and> volume (options (sound_heap run_crossfade 1)) = None
   \<and> timers run_crossfade = [(2000, 0)]"
  by (simp add: run_crossfade_def run_m2_loaded_def run_m1_playing_def run_m1_loaded_def
        play_defs run_defs store_defs eval_nat_numeral Let_def)

lemma run_click_playing_eval:
  "sounds run_click_playing = [(''click'', 0)]
   \<and> \<not> isMusic (sound_heap run_click_playing 0) \<and> isPlaying (sound_heap run_click_playing 0)
   \<and> gain (sound_heap run_click_playing 0) = Some \<lparr>gain_value = 1, gain_timeline = []\<rparr>
   \<and> volume (options (sound_heap run_click_playing 0)) = None
   \<and> audio (sound_heap run_click_playing 0) = 0"
  by (simp add: run_click_playing_def run_click_loaded_def
        play_defs run_defs store_defs eval_nat_numeral Let_def)

lemma run_click_resumed_eval:
  "sounds run_click_resumed = [(''click'', 0)]
   \<and> \<not> isMusic (sound_heap run_click_resumed 0) \<and> isPlaying (sound_heap run_click_resumed 0)
   \<and> gain (sound_heap run_click_resumed 0) = None
   \<and> audio (sound_heap run_click_resumed 0) = 0
   \<and> \<not> paused (audio_heap run_click_resumed 0)
   \<and> audio_volume (audio_heap run_click_resumed 0) = 1"
  by (simp add: run_click_resumed_def run_click_playing_def run_click_loaded_def resume_def
        play_defs run_defs store_defs eval_nat_numeral Let_def)

lemma clamp01_max_min: "max 0 (min 1 v) = clamp01 v"
  by (simp add: clamp01_def max_def min_def)

lemma setSfxVolume_fold:
  "sfxVolume (fold setSfxVolume_each xs st) = sfxVolume st
   \<and> sound_heap (fold setSfxVolume_each xs st) x =
     (if x \<in> snd ` set xs \<and> \<not> isMusic (sound_heap st x) \<and> isPlaying (sound_heap st x)
         \<and> gain (sound_heap st x) \<noteq> None
      then (sound_heap st x)\<lparr>gain := map_option
              (\<lambda>g. g\<lparr>gain_value := scaled (sfxVolume st) (sound_heap st x)\<rparr>)
              (gain (sound_heap st x))\<rparr>
      else sound_heap st x)"
proof (induction xs arbitrary: st)
  case Nil
  show ?case by simp
next
  case (Cons p xs)
  obtain k sa where p: "p = (k, sa)" by (cases p)
  let ?st1 = "setSfxVolume_each (k, sa) st"
  have vol: "sfxVolume ?st1 = sfxVolume st"
    by (simp add: setSfxVolume_each_def set_gain_value_def upd_sound_def)
  have heap: "sound_heap ?st1 =
     (if \<not> isMusic (sound_heap st sa) \<and> isPlaying (sound_heap st sa)
         \<and> gain (sound_heap st sa) \<noteq> None
      then (sound_heap st)(sa := (sound_heap st sa)\<lparr>gain := map_option
              (\<lambda>g. g\<lparr>gain_value := scaled (sfxVolume st) (sound_heap st sa)\<rparr>)
              (gain (sound_heap st sa))\<rparr>)
      else sound_heap st)"
    by (auto simp: setSfxVolume_each_def set_gain_value_def upd_sound_def)
  have "fold setSfxVolume_each (p # xs) st = fold setSfxVolume_each xs ?st1"
    by (simp add: p)
  then show ?case
    using Cons.IH [of ?st1] vol
    by (auto simp: heap p scaled_def)
qed

lemma setSfxVolume_unfold:
  "setSfxVolume v s =
     triggerEvent (VolumeChangeEvent SfxChannel
         (sfxVolume (fold setSfxVolume_each (sounds s) (s\<lparr>sfxVolume := clamp01 v\<rparr>))))
       (fold setSfxVolume_each (sounds s) (s\<lparr>sfxVolume := clamp01 v\<rparr>))"
  by (simp add: setSfxVolume_def Let_def clamp01_max_min)

lemma setSfxVolume_fold_emitted: "emitted (fold setSfxVolume_each xs st) = emitted st"
  by (rule fold_field)
     (simp add: setSfxVolume_each_def set_gain_value_def upd_sound_def split: prod.split)

lemma setSfxVolume_fold_audio: "audio_heap (fold setSfxVolume_each xs st) = audio_heap st"
  by (rule fold_field)
     (simp add: setSfxVolume_each_def set_gain_value_def upd_sound_def split: prod.split)

text \<open>
  C5, as the code has it.  For every real \<open>v\<close>, \<^verbatim>\<open>setMusicVolume(v)\<close> and
  \<^verbatim>\<open>setSfxVolume(v)\<close> store \<open>clamp(v, 0, 1)\<close> as the channel volume, reject nothing and
  trigger \<^verbatim>\<open>volumeChange\<close> with the stored value.  The music setter writes channel
  volume times \<^verbatim>\<open>options.volume\<close> (1 when undefined) into the gain node of the current
  music, if that sound has a gain node, and leaves every other sound as it is.  The
  effects setter writes that product into the gain node of every registered non-music
  sound that is playing and has a gain node, and leaves every other sound as it is.
  Neither touches an audio element.
\<close>

theorem C5_set_volume_clamps_and_reapplies:
  "musicVolume (setMusicVolume v s) = clamp01 v
   \<and> sfxVolume (setSfxVolume v s) = clamp01 v
   \<and> emitted (setMusicVolume v s) = emitted s @ [VolumeChangeEvent MusicChannel (clamp01 v)]
   \<and> emitted (setSfxVolume v s) = emitted s @ [VolumeChangeEvent SfxChannel (clamp01 v)]
   \<and> (\<forall>ca g. currentMusic s = Some ca \<and> gain (sound_heap s ca) = Some g \<longrightarrow>
         sound_heap (setMusicVolume v s) ca = (sound_heap s ca)\<lparr>gain := Some (g\<lparr>gain_value :=
            clamp01 v * (case volume (options (sound_heap s ca)) of Some ov \<Rightarrow> ov | None \<Rightarrow> 1)\<rparr>)\<rparr>)
   \<and> (\<forall>x. currentMusic s \<noteq> Some x \<or> gain (sound_heap s x) = None \<longrightarrow>
         sound_heap (setMusicVolume v s) x = sound_heap s x)
   \<and> (\<forall>(k, sa)\<in>set (sounds s). \<forall>g.
         \<not> isMusic (sound_heap s sa) \<and> isPlaying (sound_heap s sa)
         \<and> gain (sound_heap s sa) = Some g \<longrightarrow>
         sound_heap (setSfxVolume v s) sa = (sound_heap s sa)\<lparr>gain := Some (g\<lparr>gain_value :=
            clamp01 v * (case volume (options (sound_heap s sa)) of Some ov \<Rightarrow> ov | None \<Rightarrow> 1)\<rparr>)\<rparr>)
   \<and> (\<forall>x. isMusic (sound_heap s x) \<or> \<not> isPlaying (sound_heap s x)
           \<or> gain (sound_heap s x) = None \<or> x \<notin> snd ` set (sounds s) \<longrightarrow>
         sound_heap (setSfxVolume v s) x = sound_heap s x)
   \<and> audio_heap (setMusicVolume v s) = audio_heap s
   \<and> audio_heap (setSfxVolume v s) = audio_heap s"
proof -
  let ?s1 = "s\<lparr>sfxVolume := clamp01 v\<rparr>"
  have music: "musicVolume (setMusicVolume v s) = clamp01 v"
    "emitted (setMusicVolume v s) = emitted s @ [VolumeChangeEvent MusicChannel (clamp01 v)]"
    "audio_heap (setMusicVolume v s) = audio_heap s"
    by (simp_all add: setMusicVolume_def Let_def clamp01_max_min set_gain_value_def store_defs
          split: option.splits)
  have mgain: "sound_heap (setMusicVolume v s) ca = (sound_heap s ca)\<lparr>gain := Some (g\<lparr>gain_value :=
            clamp01 v * (case volume (options (sound_heap s ca)) of Some ov \<Rightarrow> ov | None \<Rightarrow> 1)\<rparr>)\<rparr>"
    if "currentMusic s = Some ca" "gain (sound_heap s ca) = Some g" for ca g
    using that
    by (simp add: setMusicVolume_def Let_def clamp01_max_min set_gain_value_def store_defs
          scaled_def)
  have mrest: "sound_heap (setMusicVolume v s) x = sound_heap s x"
    if "currentMusic s \<noteq> Some x \<or> gain (sound_heap s x) = None" for x
    using that
    by (auto simp: setMusicVolume_def Let_def set_gain_value_def store_defs split: option.splits)
  have sfx: "sfxVolume (setSfxVolume v s) = clamp01 v"
    "emitted (setSfxVolume v s) = emitted s @ [VolumeChangeEvent SfxChannel (clamp01 v)]"
    using setSfxVolume_fold [of "sounds s" ?s1] setSfxVolume_fold_emitted [of "sounds s" ?s1]
    by (simp_all add: setSfxVolume_unfold triggerEvent_def)
  have sheap: "sound_heap (setSfxVolume v s) x =
     (if x \<in> snd ` set (sounds s) \<and> \<not> isMusic (sound_heap s x) \<and> isPlaying (sound_heap s x)
         \<and> gain (sound_heap s x) \<noteq> None
      then (sound_heap s x)\<lparr>gain := map_option
              (\<lambda>g. g\<lparr>gain_value := scaled (clamp01 v) (sound_heap s x)\<rparr>)
              (gain (sound_heap s x))\<rparr>
      else sound_heap s x)" for x
    using setSfxVolume_fold [of "sounds s" ?s1 x]
    by (simp add: setSfxVolume_unfold triggerEvent_def scaled_def)
  have saudio: "audio_heap (setSfxVolume v s) = audio_heap s"
    using setSfxVolume_fold_audio [of "sounds s" ?s1]
    by (simp add: setSfxVolume_unfold triggerEvent_def)
  have sgain: "sound_heap (setSfxVolume v s) sa = (sound_heap s sa)\<lparr>gain := Some (g\<lparr>gain_value :=
            clamp01 v * (case volume (options (sound_heap s sa)) of Some ov \<Rightarrow> ov | None \<Rightarrow> 1)\<rparr>)\<rparr>"
    if "(k, sa) \<in> set (sounds s)" "\<not> isMusic (sound_heap s sa)" "isPlaying (sound_heap s sa)"
      "gain (sound_heap s sa) = Some g" for k sa g
  proof -
    from that(1) have "sa \<in> snd ` set (sounds s)" by force
    with that show ?thesis by (simp add: sheap scaled_def)
  qed
  have srest: "sound_heap (setSfxVolume v s) x = sound_heap s x"
    if "isMusic (sound_heap s x) \<or> \<not> isPlaying (sound_heap s x) \<or> gain (sound_heap s x) = None
           \<or> x \<notin> snd ` set (sounds s)" for x
    using that by (auto simp: sheap)
  show ?thesis
    using music mgain mrest sfx sgain srest saudio by blast
qed

text \<open>
  A volume of \<open>3/2\<close> is stored as 1; with \<open>1/2\<close> the gain of the current music \<^verbatim>\<open>m2\<close>
  and the gain of the playing effect \<^verbatim>\<open>click\<close> become \<open>1/2\<close>.
\<close>

theorem C5_set_volume_clamps_and_reapplies_witness:
  "currentMusic run_crossfade = Some 1
   \<and> gain (sound_heap run_crossfade 1) = Some \<lparr>gain_value = 1, gain_timeline = []\<rparr>
   \<and> musicVolume (setMusicVolume (3/2) run_crossfade) = 1
   \<and> gain (sound_heap (setMusicVolume (1/2) run_crossfade) 1) =
       Some \<lparr>gain_value = 1/2, gain_timeline = []\<rparr>
   \<and> (''click'', 0) \<in> set (sounds run_click_playing)
   \<and> isPlaying (sound_heap run_click_playing 0)
   \<and> sfxVolume (setSfxVolume (- 1) run_click_playing) = 0
   \<and> gain (sound_heap (setSfxVolume (1/2) run_click_playing) 0) =
       Some \<lparr>gain_value = 1/2, gain_timeline = []\<rparr>"
  using C5_set_volume_clamps_and_reapplies [of "3/2" run_crossfade]
    C5_set_volume_clamps_and_reapplies [of "1/2" run_crossfade]
    C5_set_volume_clamps_and_reapplies [of "- 1" run_click_playing]
    C5_set_volume_clamps_and_reapplies [of "1/2" run_click_playing]
    run_crossfade_eval run_click_playing_eval
  by (simp add: clamp01_def)

text \<open>
  As the specification states it, the property fails on playing voices the setters do not reach.  While \<^verbatim>\<open>m1\<close>
  fades out it is a playing music sound with a gain node, yet \<^verbatim>\<open>setMusicVolume(1/2)\<close>
  leaves its gain at 1 and changes only the current music \<^verbatim>\<open>m2\<close>.  And the effect
  \<^verbatim>\<open>click\<close>, stopped and resumed, plays without a gain node: \<^verbatim>\<open>setSfxVolume(1/2)\<close>
  applies nothing to it, its element keeps volume 1.
\<close>

theorem C5_counterexample:
  "isMusic (sound_heap run_crossfade 0) \<and> isPlaying (sound_heap run_crossfade 0)
   \<and> musicVolume (setMusicVolume (1/2) run_crossfade) = 1/2
   \<and> gain (sound_heap (setMusicVolume (1/2) run_crossfade) 0) =
       Some \<lparr>gain_value = 1, gain_timeline = [SetValueAtTime 1 0, LinearRampToValueAtTime 0 2]\<rparr>
   \<and> gain (sound_heap (setMusicVolume (1/2) run_crossfade) 1) =
       Some \<lparr>gain_value = 1/2, gain_timeline = []\<rparr>
   \<and> \<not> isMusic (sound_heap run_click_resumed 0) \<and> isPlaying (sound_heap run_click_resumed 0)
   \<and> sfxVolume (setSfxVolume (1/2) run_click_resumed) = 1/2
   \<and> gain (sound_heap (setSfxVolume (1/2) run_click_resumed) 0) = None
   \<and> audio_volume (audio_heap (setSfxVolume (1/2) run_click_resumed) 0) = 1"
  using run_crossfade_eval run_click_resumed_eval
  by (simp add: setMusicVolume_def setSfxVolume_def setSfxVolume_each_def set_gain_value_def
        scaled_def store_defs Let_def)

section \<open>Visibility transitions\<close>







section \<open>Loading\<close>

lemma getAudioFromPool_frame:
  "fetches (snd (getAudioFromPool s)) = fetches s
   \<and> sounds (snd (getAudioFromPool s)) = sounds s
   \<and> soundsCache (snd (getAudioFromPool s)) = soundsCache s
   \<and> next_sound (snd (getAudioFromPool s)) = next_sound s
   \<and> sound_heap (snd (getAudioFromPool s)) = sound_heap s"
  by (simp add: getAudioFromPool_def createPooledAudio_def store_defs Let_def split: option.splits)

lemma registerSound_facts:
  "fst (registerSound sid isM buf s) = next_sound s
   \<and> fetches (snd (registerSound sid isM buf s)) = fetches s
   \<and> soundsCache (snd (registerSound sid isM buf s)) = soundsCache s
   \<and> map_of (sounds (snd (registerSound sid isM buf s))) sid = Some (next_sound s)
   \<and> sound_id (sound_heap (snd (registerSound sid isM buf s)) (next_sound s)) = sid
   \<and> isMusic (sound_heap (snd (registerSound sid isM buf s)) (next_sound s)) = isM
   \<and> \<not> isPlaying (sound_heap (snd (registerSound sid isM buf s)) (next_sound s))
   \<and> src (audio_heap (snd (registerSound sid isM buf s))
         (audio (sound_heap (snd (registerSound sid isM buf s)) (next_sound s)))) = Some buf"
proof -
  obtain a s1 where g: "getAudioFromPool s = (a, s1)" by (cases "getAudioFromPool s")
  with getAudioFromPool_frame [of s]
  have "fetches s1 = fetches s" "sounds s1 = sounds s" "soundsCache s1 = soundsCache s"
    "next_sound s1 = next_sound s" "sound_heap s1 = sound_heap s"
    by simp_all
  then show ?thesis
    by (simp add: registerSound_def g Let_def update_conv' store_defs)
qed

text \<open>
  C2, as the code has it.  On an initialised manager, a \<^verbatim>\<open>loadSound(id, url)\<close> call for
  an id that is not registered and a URL whose bytes are not cached issues a fetch of
  that URL, whether or not a fetch of it is already pending: a second call made
  before the first has settled issues a second fetch.  A call for a registered id
  returns the registered sound and changes nothing.  A call for a new id and a URL
  whose bytes are cached fetches nothing and builds the sound from the cached bytes.
  When a fetch settles with bytes, they are cached under the URL and the sound is
  built from them and registered under the id.
\<close>

theorem C2_load_fetches_unless_cached:
  assumes "isInitialized s" and "audioContext s \<noteq> None"
  shows "(map_of (sounds s) sid = None \<and> map_of (soundsCache s) url = None \<longrightarrow>
            loadSound_begin pf sid url isM s = (AwaitingFetch, s\<lparr>fetches := fetches s @ [url]\<rparr>)
          \<and> loadSound_begin pf sid url isM (snd (loadSound_begin pf sid url isM s)) =
              (AwaitingFetch, s\<lparr>fetches := fetches s @ [url, url]\<rparr>))
     \<and> (\<forall>sa. map_of (sounds s) sid = Some sa \<longrightarrow>
            loadSound_begin pf sid url isM s = (Resolved (Some sa), s))
     \<and> (\<forall>buf. map_of (sounds s) sid = None \<and> map_of (soundsCache s) url = Some buf \<longrightarrow>
            fst (loadSound_begin pf sid url isM s) = Resolved (Some (next_sound s))
          \<and> fetches (snd (loadSound_begin pf sid url isM s)) = fetches s
          \<and> map_of (sounds (snd (loadSound_begin pf sid url isM s))) sid = Some (next_sound s)
          \<and> src (audio_heap (snd (loadSound_begin pf sid url isM s))
                (audio (sound_heap (snd (loadSound_begin pf sid url isM s)) (next_sound s)))) = Some buf)
     \<and> fst (loadSound_resume sid url isM (Some buf') s) = Some (next_sound s)
     \<and> map_of (soundsCache (snd (loadSound_resume sid url isM (Some buf') s))) url = Some buf'
     \<and> map_of (sounds (snd (loadSound_resume sid url isM (Some buf') s))) sid = Some (next_sound s)
     \<and> fetches (snd (loadSound_resume sid url isM (Some buf') s)) = fetches s
     \<and> src (audio_heap (snd (loadSound_resume sid url isM (Some buf') s))
           (audio (sound_heap (snd (loadSound_resume sid url isM (Some buf') s)) (next_sound s)))) = Some buf'"
proof -
  have ens: "ensureInitialized pf u = (True, u)" if "isInitialized u" "audioContext u \<noteq> None" for u
    using that by (simp add: ensureInitialized_def)
  have fetch: "loadSound_begin pf sid url isM u = (AwaitingFetch, u\<lparr>fetches := fetches u @ [url]\<rparr>)"
    if "isInitialized u" "audioContext u \<noteq> None" "map_of (sounds u) sid = None"
      "map_of (soundsCache u) url = None" for u
    using that by (simp add: loadSound_begin_def ens)
  have twice: "loadSound_begin pf sid url isM (snd (loadSound_begin pf sid url isM s)) =
              (AwaitingFetch, s\<lparr>fetches := fetches s @ [url, url]\<rparr>)"
    if "map_of (sounds s) sid = None" "map_of (soundsCache s) url = None"
    using that assms fetch [of s] fetch [of "s\<lparr>fetches := fetches s @ [url]\<rparr>"] by simp
  have known: "loadSound_begin pf sid url isM s = (Resolved (Some sa), s)"
    if "map_of (sounds s) sid = Some sa" for sa
    using that assms by (simp add: loadSound_begin_def ens)
  have cached: "loadSound_begin pf sid url isM s =
      (Resolved (Some (fst (registerSound sid isM buf s))), snd (registerSound sid isM buf s))"
    if "map_of (sounds s) sid = None" "map_of (soundsCache s) url = Some buf" for buf
    using that assms by (simp add: loadSound_begin_def ens split: prod.splits)
  let ?s1 = "s\<lparr>soundsCache := AList.update url buf' (soundsCache s)\<rparr>"
  have res: "loadSound_resume sid url isM (Some buf') s =
      (Some (fst (registerSound sid isM buf' ?s1)),
       triggerEvent (LoadEvent sid isM) (snd (registerSound sid isM buf' ?s1)))"
    by (simp add: loadSound_resume_def Let_def split: prod.splits)
  show ?thesis
    using assms fetch [of s] twice known cached registerSound_facts [of sid isM _ s]
      registerSound_facts [of sid isM buf' ?s1]
    by (simp add: res triggerEvent_def update_conv')
qed

text \<open>
  After \<^verbatim>\<open>m1\<close> has been loaded from \<^verbatim>\<open>/m1.mp3\<close>: loading it again returns the registered
  sound, loading the same URL under another id fetches nothing, loading another URL
  fetches it.
\<close>

theorem C2_load_fetches_unless_cached_witness:
  "isInitialized run_m1_loaded \<and> audioContext run_m1_loaded \<noteq> None
   \<and> loadSound_begin pf0 ''m1'' ''/m1.mp3'' True run_m1_loaded = (Resolved (Some 0), run_m1_loaded)
   \<and> fst (loadSound_begin pf0 ''again'' ''/m1.mp3'' True run_m1_loaded) = Resolved (Some 1)
   \<and> fetches (snd (loadSound_begin pf0 ''again'' ''/m1.mp3'' True run_m1_loaded)) = [''/m1.mp3'']
   \<and> fst (loadSound_begin pf0 ''m2'' ''/m2.mp3'' True run_m1_loaded) = AwaitingFetch
   \<and> fetches (snd (loadSound_begin pf0 ''m2'' ''/m2.mp3'' True run_m1_loaded)) =
       [''/m1.mp3'', ''/m2.mp3'']"
  using C2_load_fetches_unless_cached [of run_m1_loaded "''m1''" "''/m1.mp3''" pf0 True "[]"]
    C2_load_fetches_unless_cached [of run_m1_loaded "''again''" "''/m1.mp3''" pf0 True "[]"]
    C2_load_fetches_unless_cached [of run_m1_loaded "''m2''" "''/m2.mp3''" pf0 True "[]"]
    run_m1_loaded_eval
  by simp

text \<open>
  As the specification states it, the property fails: two \<^verbatim>\<open>loadSound('x', '/x.mp3')\<close> calls, the second made
  before the first fetch has settled, both reach \<^verbatim>\<open>fetch\<close>, so the URL is fetched
  twice.  When the fetches settle, each call builds a \<^verbatim>\<open>Sound\<close> object of its own (0
  and 1); the registry keeps the second.
\<close>

theorem C2_counterexample:
  "fst (loadSound_begin pf0 ''x'' ''/x.mp3'' False new_SoundManager) = AwaitingFetch
   \<and> fst (loadSound_begin pf0 ''x'' ''/x.mp3'' False
       (snd (loadSound_begin pf0 ''x'' ''/x.mp3'' False new_SoundManager))) = AwaitingFetch
   \<and> fetches run_two_loads_begun = [''/x.mp3'', ''/x.mp3'']
   \<and> fst (loadSound_resume ''x'' ''/x.mp3'' False (Some [7]) run_two_loads_begun) = Some 0
   \<and> fst (loadSound_resume ''x'' ''/x.mp3'' False (Some [7])
       (snd (loadSound_resume ''x'' ''/x.mp3'' False (Some [7]) run_two_loads_begun))) = Some 1
   \<and> sounds run_two_loads_done = [(''x'', 1)]"
  by (simp add: run_two_loads_done_def run_two_loads_begun_def run_defs store_defs
       eval_nat_numeral Let_def)

section \<open>Stopping, with and without a fade\<close>

lemma stop_deferred:
  assumes "map_of (sounds s) sid = Some sa" "fadeOut opts = Some fo" "0 < fo"
    "gain (sound_heap s sa) = Some g" "audioContext s \<noteq> None"
  shows "sound_heap (stop pf sid opts s) =
           (sound_heap s)(sa := (sound_heap s sa)\<lparr>gain := Some (g\<lparr>gain_timeline := gain_timeline g @
              [SetValueAtTime (gain_value g) (contextTime pf),
               LinearRampToValueAtTime 0 (contextTime pf + fo)]\<rparr>)\<rparr>)"
    and "audio_heap (stop pf sid opts s) = audio_heap s"
    and "timers (stop pf sid opts s) = timers s @ [(fo * 1000, sa)]"
    and "sounds (stop pf sid opts s) = sounds s"
  using assms by (simp_all add: stop_def Let_def store_defs split: option.splits)

lemma fire_last_timer:
  assumes "timers u = ts @ [(d, sa)]"
  shows "fire_timer (length ts) u = stopNow sa (u\<lparr>timers := ts\<rparr>)"
  using assms by (simp add: fire_timer_def nth_append)

lemma stop_deferred_fired:
  assumes "map_of (sounds s) sid = Some sa" "fadeOut opts = Some fo" "0 < fo"
    "gain (sound_heap s sa) = Some g" "audioContext s \<noteq> None"
  shows "is_stopped (fire_timer (length (timers s)) (stop pf sid opts s)) sa"
  using fire_last_timer [OF stop_deferred(3) [OF assms, of pf]]
  by (simp add: stopNow_is_stopped)

lemma stop_immediate:
  assumes "map_of (sounds s) sid = Some sa"
    and "fadeOut opts = None \<or> (\<exists>fo. fadeOut opts = Some fo \<and> fo \<le> 0)
         \<or> gain (sound_heap s sa) = None \<or> audioContext s = None"
  shows "is_stopped (stop pf sid opts s) sa" and "timers (stop pf sid opts s) = timers s"
  using assms stopNow_is_stopped [of sa s]
  by (auto simp: stop_def Let_def is_stopped_currentMusic stopNow_def store_defs
      split: option.splits)

text \<open>
  C7, as the code has it.  \<^verbatim>\<open>stop(id, options)\<close> on a registered sound never throws
  and never removes an event from the gain's timeline.  Without a positive \<^verbatim>\<open>fadeOut\<close>
  (or without a gain node or a context) the sound is stopped when \<^verbatim>\<open>stop\<close> returns:
  not playing, voice paused at position zero, and the gain node is dropped together
  with whatever ramp was scheduled on it.  With a positive \<^verbatim>\<open>fadeOut\<close> and a gain node
  \<open>g\<close>, every event already on the timeline of \<open>g\<close> (a fade-in ramp in progress
  included) stays and the two fade-out events are added behind them; the sound's
  playing flag and its voice are left as they are, and the sound is stopped only when
  the timer set by \<^verbatim>\<open>stop\<close> fires.
\<close>

theorem C7_stop_with_and_without_fade_out:
  assumes "map_of (sounds s) sid = Some sa"
  shows "(\<forall>fo g. fadeOut opts = Some fo \<and> 0 < fo \<and> gain (sound_heap s sa) = Some g
            \<and> audioContext s \<noteq> None \<longrightarrow>
            gain (sound_heap (stop pf sid opts s) sa) =
              Some (g\<lparr>gain_timeline := gain_timeline g @
                [SetValueAtTime (gain_value g) (contextTime pf),
                 LinearRampToValueAtTime 0 (contextTime pf + fo)]\<rparr>)
          \<and> isPlaying (sound_heap (stop pf sid opts s) sa) = isPlaying (sound_heap s sa)
          \<and> audio_heap (stop pf sid opts s) = audio_heap s
          \<and> timers (stop pf sid opts s) = timers s @ [(fo * 1000, sa)]
          \<and> is_stopped (fire_timer (length (timers s)) (stop pf sid opts s)) sa)
     \<and> (fadeOut opts = None \<or> (\<exists>fo. fadeOut opts = Some fo \<and> fo \<le> 0)
          \<or> gain (sound_heap s sa) = None \<or> audioContext s = None \<longrightarrow>
            is_stopped (stop pf sid opts s) sa
          \<and> timers (stop pf sid opts s) = timers s)"
proof (intro conjI allI impI)
  fix fo g
  assume "fadeOut opts = Some fo \<and> 0 < fo \<and> gain (sound_heap s sa) = Some g
            \<and> audioContext s \<noteq> None"
  then have h: "fadeOut opts = Some fo" "0 < fo" "gain (sound_heap s sa) = Some g"
    "audioContext s \<noteq> None" by simp_all
  note d = stop_deferred [OF assms h, of pf]
  show "gain (sound_heap (stop pf sid opts s) sa) =
              Some (g\<lparr>gain_timeline := gain_timeline g @
                [SetValueAtTime (gain_value g) (contextTime pf),
                 LinearRampToValueAtTime 0 (contextTime pf + fo)]\<rparr>)"
    by (simp add: d(1))
  show "isPlaying (sound_heap (stop pf sid opts s) sa) = isPlaying (sound_heap s sa)"
    by (simp add: d(1))
  show "audio_heap (stop pf sid opts s) = audio_heap s" by (rule d(2))
  show "timers (stop pf sid opts s) = timers s @ [(fo * 1000, sa)]" by (rule d(3))
  show "is_stopped (fire_timer (length (timers s)) (stop pf sid opts s)) sa"
    by (rule stop_deferred_fired [OF assms h])
next
  assume i: "fadeOut opts = None \<or> (\<exists>fo. fadeOut opts = Some fo \<and> fo \<le> 0)
          \<or> gain (sound_heap s sa) = None \<or> audioContext s = None"
  show "is_stopped (stop pf sid opts s) sa" by (rule stop_immediate(1) [OF assms i])
  show "timers (stop pf sid opts s) = timers s" by (rule stop_immediate(2) [OF assms i])
qed

lemma run_fade_in_eval:
  "sounds run_fade_in = [(''m1'', 0)]
   \<and> isPlaying (sound_heap run_fade_in 0)
   \<and> audio (sound_heap run_fade_in 0) = 0
   \<and> \<not> paused (audio_heap run_fade_in 0)
   \<and> audioContext run_fade_in = Some AudioContext
   \<and> timers run_fade_in = []
   \<and> gain (sound_heap run_fade_in 0) = Some \<lparr>gain_value = 0, gain_timeline =
        [SetValueAtTime 0 0, LinearRampToValueAtTime 1 2]\<rparr>"
  by (simp add: run_fade_in_def run_m1_loaded_def
        play_defs run_defs store_defs eval_nat_numeral Let_def)

text \<open>
  After \<^verbatim>\<open>play('m1', {fadeIn: 2})\<close>: \<^verbatim>\<open>stop('m1')\<close> leaves \<^verbatim>\<open>m1\<close> stopped at once;
  \<^verbatim>\<open>stop('m1', {fadeOut: 1})\<close> sets a timer of 1000 ms, and \<^verbatim>\<open>m1\<close> is stopped when it
  fires.
\<close>

theorem C7_stop_with_and_without_fade_out_witness:
  "map_of (sounds run_fade_in) ''m1'' = Some 0
   \<and> is_stopped (stop pf0 ''m1'' no_options run_fade_in) 0
   \<and> timers run_fade_in_stop = [(1000, 0)]
   \<and> is_stopped (fire_timer 0 run_fade_in_stop) 0"
  using C7_stop_with_and_without_fade_out [of run_fade_in "''m1''" 0 no_options pf0]
    C7_stop_with_and_without_fade_out [of run_fade_in "''m1''" 0 "no_options\<lparr>fadeOut := Some 1\<rparr>" pf0]
    run_fade_in_eval
  by (simp add: run_fade_in_stop_def no_options_def)

text \<open>
  As the specification states it, the property fails for a stop with a fade-out.  After
  \<^verbatim>\<open>play('m1', {fadeIn: 2})\<close> the gain holds the fade-in ramp; after
  \<^verbatim>\<open>stop('m1', {fadeOut: 1})\<close> that ramp is still scheduled, next to the fade-out ramp,
  and \<^verbatim>\<open>m1\<close> is still playing on an unpaused voice, with the stop waiting in a timer.
\<close>

theorem C7_counterexample:
  "gain (sound_heap run_fade_in 0) = Some \<lparr>gain_value = 0, gain_timeline =
        [SetValueAtTime 0 0, LinearRampToValueAtTime 1 2]\<rparr>
   \<and> isPlaying (sound_heap run_fade_in_stop 0)
   \<and> \<not> paused (audio_heap run_fade_in_stop 0)
   \<and> gain (sound_heap run_fade_in_stop 0) = Some \<lparr>gain_value = 0, gain_timeline =
        [SetValueAtTime 0 0, LinearRampToValueAtTime 1 2,
         SetValueAtTime 0 0, LinearRampToValueAtTime 0 1]\<rparr>
   \<and> timers run_fade_in_stop = [(1000, 0)]"
  by (simp add: run_fade_in_stop_def run_fade_in_def run_m1_loaded_def
        play_defs run_defs store_defs eval_nat_numeral Let_def)

section \<open>Playing music while another music is current\<close>











end
